theory Spec2Isabelle
  imports Main "HOL-Library.Char_ord" "HOL-Library.List_Lexorder" "HOL-Library.Multiset"
begin

section \<open>The reminder table and the database client\<close>

text \<open>
  The service layer (\<^verbatim>\<open>service/db/index.js\<close>) talks to the database through the Prisma
  client. A table is the list of its rows, in the order the database scans them. The
  calls the reminder service makes are \<^verbatim>\<open>create\<close>, \<^verbatim>\<open>findMany\<close>, \<^verbatim>\<open>update\<close> and
  \<^verbatim>\<open>delete\<close>; \<^verbatim>\<open>update\<close> and \<^verbatim>\<open>delete\<close> throw when no row has the id, and every call
  throws when it is handed an invalid \<^verbatim>\<open>Date\<close>. The id is the key of the table, so at
  most one row has a given id; no definition below relies on it. A reminder and a
  calendar event belong to a user (the queries read \<^verbatim>\<open>include: { user: ... }\<close>): of the
  table of users the model keeps the ids, the parameter \<open>users\<close>, and \<^verbatim>\<open>create\<close> throws
  when \<^verbatim>\<open>userId\<close> is the id of no user.

  A \<^verbatim>\<open>Date\<close> is its time value, the milliseconds since the epoch; the invalid date is
  \<open>None\<close>. The clock (\<^verbatim>\<open>new Date()\<close>) is the parameter \<open>now\<close>, the runtime's parser of
  date strings (\<^verbatim>\<open>new Date(string)\<close>) is the parameter \<open>newDate\<close>, and the id the
  database gives a new row is the parameter \<open>newId\<close>.
\<close>

datatype exn =
  PrismaNotFound
  | PrismaValidation
  | PrismaForeignKey
  | Error string

record reminder =
  reminderId :: string
  userId :: string
  title :: string
  dueDate :: int
  repeatType :: string
  repeatUntil :: "int option"
  interval :: int
  completed :: bool




text \<open>The fields of a request body: \<open>None\<close> is a field that is absent (\<^verbatim>\<open>undefined\<close>).\<close>

record reminderData =
  data_userId :: "string option"
  data_title :: "string option"
  data_dueDate :: "string option"
  data_repeatType :: "string option"
  data_repeatUntil :: "string option"
  data_interval :: "int option"

text \<open>JavaScript truthiness of a string that may be undefined.\<close>

fun truthy :: "string option \<Rightarrow> bool" where
  "truthy None = False"
| "truthy (Some s) = (s \<noteq> [])"

text \<open>
  \<^verbatim>\<open>new Date(x)\<close> for a field that may be undefined: \<^verbatim>\<open>new Date(undefined)\<close> is the
  invalid date.
\<close>

fun Date_of :: "(string \<Rightarrow> int option) \<Rightarrow> string option \<Rightarrow> int option" where
  "Date_of newDate None = None"
| "Date_of newDate (Some s) = newDate s"

text \<open>\<^verbatim>\<open>x ? new Date(x) : undefined\<close> (or \<^verbatim>\<open>null\<close>): the outer \<open>None\<close> is "no date given".\<close>

definition Date_if_truthy :: "(string \<Rightarrow> int option) \<Rightarrow> string option \<Rightarrow> int option option" where
  "Date_if_truthy newDate x = (if truthy x then Some (Date_of newDate x) else None)"

definition has_id :: "string \<Rightarrow> reminder \<Rightarrow> bool" where
  "has_id i r = (reminderId r = i)"

text \<open>\<^verbatim>\<open>prisma.reminder.update({ where: { id }, data })\<close>: \<open>f\<close> writes the given columns.\<close>

definition prisma_update ::
  "reminder list \<Rightarrow> string \<Rightarrow> (reminder \<Rightarrow> reminder) \<Rightarrow> exn + (reminder list \<times> reminder)" where
  "prisma_update db i f =
     (case find (has_id i) db of
        None \<Rightarrow> Inl PrismaNotFound
      | Some r \<Rightarrow> Inr (map (\<lambda>x. if has_id i x then f x else x) db, f r))"

text \<open>\<^verbatim>\<open>prisma.reminder.delete({ where: { id } })\<close>.\<close>

definition prisma_delete :: "reminder list \<Rightarrow> string \<Rightarrow> exn + (reminder list \<times> reminder)" where
  "prisma_delete db i =
     (case find (has_id i) db of
        None \<Rightarrow> Inl PrismaNotFound
      | Some r \<Rightarrow> Inr (filter (\<lambda>x. \<not> has_id i x) db, r))"

text \<open>
  \<^verbatim>\<open>prisma.reminder.findMany({ where, orderBy: { dueDate: 'asc' } })\<close>: the rows that
  satisfy \<open>where\<close>, sorted by \<open>dueDate\<close>. The query names no second sort key; rows with
  equal keys stay in the order of the table.
\<close>

definition prisma_findMany_by_dueDate :: "reminder list \<Rightarrow> (reminder \<Rightarrow> bool) \<Rightarrow> reminder list" where
  "prisma_findMany_by_dueDate db wh = sort_key dueDate (filter wh db)"

section \<open>The reminder service\<close>


text \<open>
  Local time. The language standard leaves the time zone to the host:
  \<^verbatim>\<open>LocalTZA(t, isUTC)\<close> is the offset of local time from UTC in ms, at the UTC time \<open>t\<close>
  when \<open>isUTC\<close> holds and at the local time \<open>t\<close> otherwise. It is the parameter \<open>tza\<close>.
\<close>

type_synonym zone = "int \<Rightarrow> bool \<Rightarrow> int"

definition msPerDay :: int where
  "msPerDay = 86400000"

definition maxTime :: int where
  "maxTime = 8640000000000000"

definition LocalTime :: "zone \<Rightarrow> int \<Rightarrow> int" where
  "LocalTime tza t = t + tza t True"

definition UTC :: "zone \<Rightarrow> int \<Rightarrow> int" where
  "UTC tza t = t - tza t False"

definition Day :: "int \<Rightarrow> int" where
  "Day t = t div msPerDay"

definition TimeWithinDay :: "int \<Rightarrow> int" where
  "TimeWithinDay t = t mod msPerDay"

text \<open>A time value beyond \<open>\<plusminus>8.64e15\<close> is the invalid date.\<close>

definition TimeClip :: "int \<Rightarrow> int option" where
  "TimeClip t = (if \<bar>t\<bar> \<le> maxTime then Some t else None)"

text \<open>
  The end of the window of \<^verbatim>\<open>getUpcoming\<close>: \<^verbatim>\<open>endDate.setDate(endDate.getDate() + days)\<close>
  on \<^verbatim>\<open>endDate = new Date()\<close>. \<^verbatim>\<open>setDate\<close> works on local time: it keeps the time within
  the day, replaces the day by the day of the same month with the new number, which is
  the day \<open>days\<close> days after the present one, and reads the result as a local time.
\<close>

definition endDate :: "zone \<Rightarrow> int \<Rightarrow> int \<Rightarrow> int option" where
  "endDate tza now days =
     (let t = LocalTime tza now;
          newDate = (Day t + days) * msPerDay + TimeWithinDay t
      in TimeClip (UTC tza newDate))"

text \<open>\<^verbatim>\<open>reminderService.getUpcoming(userId, days = 7)\<close>.\<close>

definition getUpcoming ::
  "zone \<Rightarrow> int \<Rightarrow> reminder list \<Rightarrow> string \<Rightarrow> int \<Rightarrow> exn + reminder list" where
  "getUpcoming tza now db u days =
     (case endDate tza now days of
        None \<Rightarrow> Inl PrismaValidation
      | Some e \<Rightarrow>
          Inr (prisma_findMany_by_dueDate db
                 (\<lambda>r. userId r = u \<and> completed r = False \<and> dueDate r \<le> e)))"

text \<open>
  Two hosts: one whose local time is always \<open>c\<close> ms ahead of UTC, and one whose local
  time is an hour ahead of UTC until the moment \<open>T\<close>, when its clocks go back an hour. A
  local time that occurs twice is read as the earlier moment.
\<close>

definition fixed_zone :: "int \<Rightarrow> zone" where
  "fixed_zone c = (\<lambda>t isUTC. c)"


text \<open>\<^verbatim>\<open>reminderService.markCompleted\<close>: \<^verbatim>\<open>data: { completed: true }\<close>.\<close>

definition markCompleted :: "reminder list \<Rightarrow> string \<Rightarrow> exn + (reminder list \<times> reminder)" where
  "markCompleted db i = prisma_update db i (\<lambda>r. r\<lparr>completed := True\<rparr>)"

text \<open>
  \<^verbatim>\<open>reminderService.update\<close>: the fields of \<^verbatim>\<open>reminderData\<close> are spread into \<^verbatim>\<open>data\<close>, with
  \<^verbatim>\<open>dueDate\<close> and \<^verbatim>\<open>repeatUntil\<close> replaced by a \<^verbatim>\<open>Date\<close> when truthy and by \<^verbatim>\<open>undefined\<close>
  otherwise. The client skips an undefined field and checks \<^verbatim>\<open>data\<close> before it looks
  for the row.
\<close>

definition set_opt :: "'a option \<Rightarrow> 'a \<Rightarrow> 'a" where
  "set_opt new old = (case new of None \<Rightarrow> old | Some v \<Rightarrow> v)"

definition reminderService_update ::
  "(string \<Rightarrow> int option) \<Rightarrow> reminder list \<Rightarrow> string \<Rightarrow> reminderData
     \<Rightarrow> exn + (reminder list \<times> reminder)" where
  "reminderService_update newDate db i d =
     (let due = Date_if_truthy newDate (data_dueDate d);
          until = Date_if_truthy newDate (data_repeatUntil d)
      in if due = Some None \<or> until = Some None then Inl PrismaValidation
         else prisma_update db i
                (\<lambda>r. r\<lparr>userId := set_opt (data_userId d) (userId r),
                        title := set_opt (data_title d) (title r),
                        dueDate := (case due of Some (Some t) \<Rightarrow> t | _ \<Rightarrow> dueDate r),
                        repeatType := set_opt (data_repeatType d) (repeatType r),
                        repeatUntil := (case until of Some (Some t) \<Rightarrow> Some t | _ \<Rightarrow> repeatUntil r),
                        interval := set_opt (data_interval d) (interval r)\<rparr>))"

text \<open>\<^verbatim>\<open>reminderService.delete\<close>.\<close>

definition reminderService_delete :: "reminder list \<Rightarrow> string \<Rightarrow> exn + (reminder list \<times> reminder)" where
  "reminderService_delete db i = prisma_delete db i"

section \<open>Reading the horizon: \<^verbatim>\<open>parseInt\<close>\<close>

text \<open>
  \<^verbatim>\<open>parseInt(string)\<close> with no radix, after the language standard: leading white space
  is dropped, then a sign, then the prefix \<^verbatim>\<open>0x\<close> or \<^verbatim>\<open>0X\<close> (radix 16, otherwise radix 10);
  the value is that of the longest run of digits of the radix, and \<^verbatim>\<open>NaN\<close> (here \<open>None\<close>)
  when the run is empty. A string is the list of its code units, here below 256, so the
  white space is TAB, LF, VT, FF, CR, SP and NBSP. The value is the mathematical integer:
  the runtime rounds it to a double, which is zero exactly when the integer is.
\<close>

definition isWhiteSpace :: "char \<Rightarrow> bool" where
  "isWhiteSpace c = ((of_char c :: nat) \<in> {9, 10, 11, 12, 13, 32, 160})"

definition digitVal :: "char \<Rightarrow> nat option" where
  "digitVal c =
     (let n = (of_char c :: nat)
      in if 48 \<le> n \<and> n \<le> 57 then Some (n - 48)
         else if 97 \<le> n \<and> n \<le> 122 then Some (n - 87)
         else if 65 \<le> n \<and> n \<le> 90 then Some (n - 55)
         else None)"

definition radixDigit :: "nat \<Rightarrow> char \<Rightarrow> bool" where
  "radixDigit R c = (case digitVal c of None \<Rightarrow> False | Some v \<Rightarrow> v < R)"

definition mathInt :: "nat \<Rightarrow> string \<Rightarrow> int" where
  "mathInt R Z = foldl (\<lambda>a c. a * int R + int (case digitVal c of None \<Rightarrow> 0 | Some v \<Rightarrow> v)) 0 Z"

fun stripSign :: "string \<Rightarrow> int \<times> string" where
  "stripSign (c # cs) =
     (if c = CHR ''-'' then (- 1, cs) else if c = CHR ''+'' then (1, cs) else (1, c # cs))"
| "stripSign [] = (1, [])"

fun stripPrefix :: "string \<Rightarrow> nat \<times> string" where
  "stripPrefix (a # b # cs) =
     (if a = CHR ''0'' \<and> (b = CHR ''x'' \<or> b = CHR ''X'') then (16, cs) else (10, a # b # cs))"
| "stripPrefix cs = (10, cs)"

definition parseInt :: "string \<Rightarrow> int option" where
  "parseInt inputString =
     (let (sign, S) = stripSign (dropWhile isWhiteSpace inputString);
          (R, S') = stripPrefix S;
          Z = takeWhile (radixDigit R) S'
      in if Z = [] then None else Some (sign * mathInt R Z))"

text \<open>
  \<^verbatim>\<open>parseInt(req.query.days) || 7\<close>: an absent parameter is \<^verbatim>\<open>undefined\<close>, which
  \<^verbatim>\<open>parseInt\<close> reads as the string \<^verbatim>\<open>"undefined"\<close>; \<^verbatim>\<open>NaN\<close> and zero are falsy.
\<close>

definition query_days :: "string option \<Rightarrow> int" where
  "query_days q =
     (case parseInt (case q of None \<Rightarrow> ''undefined'' | Some s \<Rightarrow> s) of
        None \<Rightarrow> 7
      | Some n \<Rightarrow> if n = 0 then 7 else n)"

section \<open>The reminder routes\<close>

text \<open>
  A response is its status and the keys of its JSON body; \<open>None\<close> is a key the body does
  not have. Each handler catches whatever the service throws and answers 500.
\<close>

record 'a response =
  status :: nat
  success :: "bool option"
  data :: "'a option"
  error :: "string option"
  message :: "string option"

text \<open>\<^verbatim>\<open>GET /api/reminders/upcoming/:userId\<close>.\<close>

definition router_get_upcoming ::
  "zone \<Rightarrow> int \<Rightarrow> reminder list \<Rightarrow> string \<Rightarrow> string option \<Rightarrow> reminder list response" where
  "router_get_upcoming tza now db u q =
     (case getUpcoming tza now db u (query_days q) of
        Inr reminders \<Rightarrow>
          \<lparr>status = 200, success = Some True, data = Some reminders, error = None, message = None\<rparr>
      | Inl e \<Rightarrow>
          \<lparr>status = 500, success = Some False, data = None,
           error = Some ''Failed to fetch upcoming reminders'', message = None\<rparr>)"


text \<open>\<^verbatim>\<open>PATCH /api/reminders/:id/complete\<close>.\<close>

definition router_patch_complete :: "reminder list \<Rightarrow> string \<Rightarrow> reminder list \<times> reminder response" where
  "router_patch_complete db i =
     (case markCompleted db i of
        Inr (db', r) \<Rightarrow>
          (db', \<lparr>status = 200, success = Some True, data = Some r, error = None, message = None\<rparr>)
      | Inl e \<Rightarrow>
          (db, \<lparr>status = 500, success = None, data = None,
                error = Some ''Failed to complete reminder'', message = None\<rparr>))"

text \<open>
  \<^verbatim>\<open>PUT /api/reminders/:id\<close>: the handler reads \<^verbatim>\<open>title\<close>, \<^verbatim>\<open>dueDate\<close>, \<^verbatim>\<open>repeatType\<close>,
  \<^verbatim>\<open>repeatUntil\<close> and \<^verbatim>\<open>interval\<close> off the body and passes exactly these on.
\<close>

definition router_put ::
  "(string \<Rightarrow> int option) \<Rightarrow> reminder list \<Rightarrow> string \<Rightarrow> reminderData
     \<Rightarrow> reminder list \<times> reminder response" where
  "router_put newDate db i body =
     (case reminderService_update newDate db i (body\<lparr>data_userId := None\<rparr>) of
        Inr (db', r) \<Rightarrow>
          (db', \<lparr>status = 200, success = Some True, data = Some r, error = None, message = None\<rparr>)
      | Inl e \<Rightarrow>
          (db, \<lparr>status = 500, success = None, data = None,
                error = Some ''Failed to update reminder'', message = None\<rparr>))"

text \<open>\<^verbatim>\<open>DELETE /api/reminders/:id\<close>.\<close>

definition router_delete :: "reminder list \<Rightarrow> string \<Rightarrow> reminder list \<times> reminder response" where
  "router_delete db i =
     (case reminderService_delete db i of
        Inr (db', r) \<Rightarrow>
          (db', \<lparr>status = 200, success = Some True, data = None, error = None,
                 message = Some ''Reminder deleted successfully''\<rparr>)
      | Inl e \<Rightarrow>
          (db, \<lparr>status = 500, success = None, data = None,
                error = Some ''Failed to delete reminder'', message = None\<rparr>))"

section \<open>Regular expressions\<close>

text \<open>
  The validators of the calendar service test their argument against a regular
  expression anchored at both ends. The expressions use character classes, sequence,
  alternation, the optional \<^verbatim>\<open>?\<close> and the counted repetition \<^verbatim>\<open>{n}\<close>. \<open>rems r s\<close> lists
  what is left of \<open>s\<close> after each way \<open>r\<close> matches a prefix of it; \<^verbatim>\<open>/^r$/.test(s)\<close> holds
  when one of them leaves nothing.
\<close>

datatype rx =
  Cls string
  | Seq rx rx
  | Alt rx rx
  | Opt rx
  | Rep nat rx

primrec rems :: "rx \<Rightarrow> string \<Rightarrow> string list" where
  "rems (Cls cs) = (\<lambda>s. case s of [] \<Rightarrow> [] | c # t \<Rightarrow> if c \<in> set cs then [t] else [])"
| "rems (Seq a b) = (\<lambda>s. concat (map (rems b) (rems a s)))"
| "rems (Alt a b) = (\<lambda>s. rems a s @ rems b s)"
| "rems (Opt a) = (\<lambda>s. rems a s @ [s])"
| "rems (Rep n a) = (\<lambda>s. ((\<lambda>l. concat (map (rems a) l)) ^^ n) [s])"

definition test :: "rx \<Rightarrow> string \<Rightarrow> bool" where
  "test r s = ([] \<in> set (rems r s))"



text \<open>\<^verbatim>\<open>/^([0-1]?[0-9]|2[0-3]):[0-5][0-9]$/\<close>.\<close>

definition timeRegex :: rx where
  "timeRegex =
     Seq (Alt (Seq (Opt (Cls ''01'')) (Cls ''0123456789'')) (Seq (Cls ''2'') (Cls ''0123'')))
         (Seq (Cls '':'') (Seq (Cls ''012345'') (Cls ''0123456789'')))"

section \<open>The calendar event service\<close>




text \<open>\<^verbatim>\<open>calendarEventService._validateTime\<close>.\<close>

fun validateTime :: "string option \<Rightarrow> exn + string option" where
  "validateTime None = Inr None"
| "validateTime (Some time) =
     (if time = [] then Inr None
      else if \<not> test timeRegex time
        then Inl (Error ''Invalid time format. Use HH:mm (24-hour format)'')
      else Inr (Some time))"









section \<open>Date strings\<close>

text \<open>
  \<^verbatim>\<open>new Date(string)\<close> on the two shapes of the interchange format of the language
  standard that the clients of this service send: \<^verbatim>\<open>YYYY-MM-DD\<close>, read as midnight UTC,
  and \<^verbatim>\<open>YYYY-MM-DDTHH:mm:ss.sssZ\<close>, with every field in range. What a runtime makes of
  any other string is the parameter \<open>other\<close>.
\<close>

definition isDigit :: "char \<Rightarrow> bool" where
  "isDigit c = (c \<in> set ''0123456789'')"

definition decimal :: "string \<Rightarrow> int" where
  "decimal ds = foldl (\<lambda>a c. 10 * a + (int (of_char c) - 48)) 0 ds"

definition isLeap :: "int \<Rightarrow> bool" where
  "isLeap y = (y mod 4 = 0 \<and> (y mod 100 \<noteq> 0 \<or> y mod 400 = 0))"

definition daysInMonth :: "int \<Rightarrow> int \<Rightarrow> int" where
  "daysInMonth y m =
     (if m = 2 then (if isLeap y then 29 else 28)
      else if m = 4 \<or> m = 6 \<or> m = 9 \<or> m = 11 then 30 else 31)"

text \<open>The number of the day \<open>y\<close>-\<open>m\<close>-\<open>d\<close>, counted from 1970-01-01.\<close>

definition daysFromCivil :: "int \<Rightarrow> int \<Rightarrow> int \<Rightarrow> int" where
  "daysFromCivil y m d =
     (let y' = (if m \<le> 2 then y - 1 else y);
          era = y' div 400;
          yoe = y' - era * 400;
          doy = (153 * (if m > 2 then m - 3 else m + 9) + 2) div 5 + d - 1;
          doe = yoe * 365 + yoe div 4 - yoe div 100 + doy
      in era * 146097 + doe - 719468)"

definition isoDay :: "string \<Rightarrow> int option" where
  "isoDay s =
     (case s of
        [y1, y2, y3, y4, a, m1, m2, b, d1, d2] \<Rightarrow>
          (let y = decimal [y1, y2, y3, y4]; m = decimal [m1, m2]; d = decimal [d1, d2]
           in if list_all isDigit [y1, y2, y3, y4, m1, m2, d1, d2] \<and> a = CHR ''-'' \<and> b = CHR ''-''
                 \<and> 1 \<le> m \<and> m \<le> 12 \<and> 1 \<le> d \<and> d \<le> daysInMonth y m
              then Some (daysFromCivil y m d) else None)
      | _ \<Rightarrow> None)"

definition isoTime :: "string \<Rightarrow> int option" where
  "isoTime s =
     (case s of
        [t, h1, h2, a, m1, m2, b, s1, s2, c, f1, f2, f3, z] \<Rightarrow>
          (let h = decimal [h1, h2]; m = decimal [m1, m2]; sec = decimal [s1, s2];
               ms = decimal [f1, f2, f3]
           in if list_all isDigit [h1, h2, m1, m2, s1, s2, f1, f2, f3] \<and> t = CHR ''T''
                 \<and> a = CHR '':'' \<and> b = CHR '':'' \<and> c = CHR ''.'' \<and> z = CHR ''Z''
                 \<and> h \<le> 23 \<and> m \<le> 59 \<and> sec \<le> 59
              then Some (((h * 60 + m) * 60 + sec) * 1000 + ms) else None)
      | _ \<Rightarrow> None)"

definition newDate_iso :: "(string \<Rightarrow> int option) \<Rightarrow> string \<Rightarrow> int option" where
  "newDate_iso other s =
     (case (isoDay (take 10 s), if length s = 10 then Some 0 else isoTime (drop 10 s)) of
        (Some day, Some t) \<Rightarrow> Some (day * msPerDay + t)
      | _ \<Rightarrow> other s)"

text \<open>A runtime that reads nothing but the two shapes above.\<close>

definition newDate_strict :: "string \<Rightarrow> int option" where
  "newDate_strict = newDate_iso (\<lambda>s. None)"

section \<open>Reminders that stay completed\<close>


section \<open>Facts about the database client and the services\<close>

lemma MakeDate_days: "(Day t + days) * msPerDay + TimeWithinDay t = t + days * msPerDay"
  by (simp add: Day_def TimeWithinDay_def algebra_simps)

lemma endDate_Some:
  "endDate tza now days = Some e \<longleftrightarrow>
     e = UTC tza (LocalTime tza now + days * 86400000) \<and> \<bar>e\<bar> \<le> 8640000000000000"
proof -
  have "endDate tza now days = TimeClip (UTC tza (LocalTime tza now + days * msPerDay))"
    by (simp only: endDate_def Let_def MakeDate_days)
  then show ?thesis
    by (auto simp: TimeClip_def msPerDay_def maxTime_def)
qed

lemma getUpcoming_Inr:
  "getUpcoming tza now db u days = Inr rs \<longleftrightarrow>
     \<bar>UTC tza (LocalTime tza now + days * 86400000)\<bar> \<le> 8640000000000000 \<and>
     rs = sort_key dueDate
            (filter (\<lambda>r. userId r = u \<and> \<not> completed r
                          \<and> dueDate r \<le> UTC tza (LocalTime tza now + days * 86400000)) db)"
proof (cases "endDate tza now days")
  case None
  then have "\<not> \<bar>UTC tza (LocalTime tza now + days * 86400000)\<bar> \<le> 8640000000000000"
    using endDate_Some [of tza now days "UTC tza (LocalTime tza now + days * 86400000)"] by simp
  with None show ?thesis by (simp add: getUpcoming_def)
next
  case (Some e)
  then have "e = UTC tza (LocalTime tza now + days * 86400000)" "\<bar>e\<bar> \<le> 8640000000000000"
    by (auto simp: endDate_Some)
  with Some show ?thesis
    by (auto simp: getUpcoming_def prisma_findMany_by_dueDate_def)
qed

lemma fixed_zone_0 [simp]: "UTC (fixed_zone 0) t = t" "LocalTime (fixed_zone 0) t = t"
  by (simp_all add: UTC_def LocalTime_def fixed_zone_def)

lemma find_has_id_map:
  assumes "\<And>x. reminderId (f x) = reminderId x"
  shows "find (has_id i) (map (\<lambda>x. if has_id i x then f x else x) db) = map_option f (find (has_id i) db)"
  using assms by (induction db) (auto simp: has_id_def)

lemma find_has_id_None: "find (has_id i) db = None \<longleftrightarrow> i \<notin> reminderId ` set db"
  by (auto simp: find_None_iff has_id_def)

lemma markCompleted_Inr:
  "markCompleted db i = Inr (db', r') \<longleftrightarrow>
     (\<exists>r. find (has_id i) db = Some r \<and> r' = r\<lparr>completed := True\<rparr> \<and>
          db' = map (\<lambda>x. if has_id i x then x\<lparr>completed := True\<rparr> else x) db)"
  by (auto simp: markCompleted_def prisma_update_def split: option.splits)



section \<open>Completion\<close>

text \<open>
  C1 (as the code has it). The specification lets \<^verbatim>\<open>markCompleted\<close> on a recurring reminder
  record the occurrence and keep \<^verbatim>\<open>completed\<close> false. The service has no recurrence
  state: for a reminder that exists, whatever its \<^verbatim>\<open>repeatType\<close>, \<^verbatim>\<open>markCompleted\<close> sets
  \<^verbatim>\<open>completed\<close> to true on the row with the id, leaves every other column and every other
  row as it was, and \<^verbatim>\<open>PATCH /:id/complete\<close> answers 200 with the updated row.
\<close>

theorem markCompleted_sets_completed:
  assumes "find (has_id i) db = Some r"
  shows "markCompleted db i =
           Inr (map (\<lambda>x. if reminderId x = i then x\<lparr>completed := True\<rparr> else x) db,
                r\<lparr>completed := True\<rparr>)
         \<and> router_patch_complete db i =
           (map (\<lambda>x. if reminderId x = i then x\<lparr>completed := True\<rparr> else x) db,
            \<lparr>status = 200, success = Some True, data = Some (r\<lparr>completed := True\<rparr>),
             error = None, message = None\<rparr>)"
  using assms by (simp add: router_patch_complete_def markCompleted_def prisma_update_def has_id_def)

theorem markCompleted_sets_completed_witness:
  "markCompleted
       [\<lparr>reminderId = ''r1'', userId = ''u1'', title = ''Run'', dueDate = 1000,
         repeatType = ''none'', repeatUntil = None, interval = 1, completed = False\<rparr>,
        \<lparr>reminderId = ''r2'', userId = ''u1'', title = ''Stretch'', dueDate = 2000,
         repeatType = ''weekly'', repeatUntil = Some 900000, interval = 2, completed = False\<rparr>] ''r2''
     = Inr ([\<lparr>reminderId = ''r1'', userId = ''u1'', title = ''Run'', dueDate = 1000,
               repeatType = ''none'', repeatUntil = None, interval = 1, completed = False\<rparr>,
             \<lparr>reminderId = ''r2'', userId = ''u1'', title = ''Stretch'', dueDate = 2000,
               repeatType = ''weekly'', repeatUntil = Some 900000, interval = 2, completed = True\<rparr>],
            \<lparr>reminderId = ''r2'', userId = ''u1'', title = ''Stretch'', dueDate = 2000,
              repeatType = ''weekly'', repeatUntil = Some 900000, interval = 2, completed = True\<rparr>)"
proof -
  have "find (has_id ''r2'')
          [\<lparr>reminderId = ''r1'', userId = ''u1'', title = ''Run'', dueDate = 1000,
            repeatType = ''none'', repeatUntil = None, interval = 1, completed = False\<rparr>,
           \<lparr>reminderId = ''r2'', userId = ''u1'', title = ''Stretch'', dueDate = 2000,
            repeatType = ''weekly'', repeatUntil = Some 900000, interval = 2, completed = False\<rparr>]
        = Some \<lparr>reminderId = ''r2'', userId = ''u1'', title = ''Stretch'', dueDate = 2000,
            repeatType = ''weekly'', repeatUntil = Some 900000, interval = 2, completed = False\<rparr>"
    by (simp add: has_id_def)
  from markCompleted_sets_completed [OF this] show ?thesis by simp
qed

text \<open>
  The claim as stated fails: a daily reminder with no end date is never exhausted, and
  \<^verbatim>\<open>markCompleted\<close> sets its \<^verbatim>\<open>completed\<close> to true.
\<close>

theorem markCompleted_recurring_counterexample:
  "repeatType \<lparr>reminderId = ''r1'', userId = ''u1'', title = ''Stretch'', dueDate = 86400000,
     repeatType = ''daily'', repeatUntil = None, interval = 1, completed = False\<rparr> \<noteq> ''none''
   \<and> markCompleted
       [\<lparr>reminderId = ''r1'', userId = ''u1'', title = ''Stretch'', dueDate = 86400000,
         repeatType = ''daily'', repeatUntil = None, interval = 1, completed = False\<rparr>] ''r1''
     = Inr ([\<lparr>reminderId = ''r1'', userId = ''u1'', title = ''Stretch'', dueDate = 86400000,
              repeatType = ''daily'', repeatUntil = None, interval = 1, completed = True\<rparr>],
            \<lparr>reminderId = ''r1'', userId = ''u1'', title = ''Stretch'', dueDate = 86400000,
              repeatType = ''daily'', repeatUntil = None, interval = 1, completed = True\<rparr>)"
  by (simp add: markCompleted_def prisma_update_def has_id_def)

text \<open>
  C8. Marking a reminder completed a second time changes nothing and is no error: the
  second call returns the table and the row of the first, and the route answers 200.
  This holds for every reminder that exists, so for every one whose \<^verbatim>\<open>repeatType\<close> is
  \<^verbatim>\<open>none\<close>.
\<close>

theorem markCompleted_twice:
  assumes "markCompleted db i = Inr (db1, r1)"
  shows "markCompleted db1 i = Inr (db1, r1)
       \<and> router_patch_complete db1 i =
           (db1, \<lparr>status = 200, success = Some True, data = Some r1, error = None, message = None\<rparr>)"
proof -
  from assms obtain r where r: "find (has_id i) db = Some r" "r1 = r\<lparr>completed := True\<rparr>"
    and db1: "db1 = map (\<lambda>x. if has_id i x then x\<lparr>completed := True\<rparr> else x) db"
    by (auto simp: markCompleted_Inr)
  have f: "find (has_id i) db1 = Some r1"
    unfolding db1 by (simp add: find_has_id_map r)
  have m: "map (\<lambda>x. if has_id i x then x\<lparr>completed := True\<rparr> else x) db1 = db1"
    unfolding db1 by simp
  have "markCompleted db1 i = Inr (db1, r1)"
    using f m r(2) by (simp add: markCompleted_Inr)
  then show ?thesis by (simp add: router_patch_complete_def)
qed

theorem markCompleted_twice_witness:
  "markCompleted
       [\<lparr>reminderId = ''r1'', userId = ''u1'', title = ''Run'', dueDate = 1000,
         repeatType = ''none'', repeatUntil = None, interval = 1, completed = True\<rparr>] ''r1''
     = Inr ([\<lparr>reminderId = ''r1'', userId = ''u1'', title = ''Run'', dueDate = 1000,
               repeatType = ''none'', repeatUntil = None, interval = 1, completed = True\<rparr>],
            \<lparr>reminderId = ''r1'', userId = ''u1'', title = ''Run'', dueDate = 1000,
              repeatType = ''none'', repeatUntil = None, interval = 1, completed = True\<rparr>)"
proof -
  have "markCompleted
          [\<lparr>reminderId = ''r1'', userId = ''u1'', title = ''Run'', dueDate = 1000,
            repeatType = ''none'', repeatUntil = None, interval = 1, completed = False\<rparr>] ''r1''
        = Inr ([\<lparr>reminderId = ''r1'', userId = ''u1'', title = ''Run'', dueDate = 1000,
                  repeatType = ''none'', repeatUntil = None, interval = 1, completed = True\<rparr>],
               \<lparr>reminderId = ''r1'', userId = ''u1'', title = ''Run'', dueDate = 1000,
                 repeatType = ''none'', repeatUntil = None, interval = 1, completed = True\<rparr>)"
    by (simp add: markCompleted_def prisma_update_def has_id_def)
  from markCompleted_twice [OF this] show ?thesis by simp
qed

section \<open>The upcoming query\<close>














text \<open>
  C6 (as the code has it). The query orders by \<^verbatim>\<open>dueDate\<close> alone: what it returns is sorted
  ascending by \<^verbatim>\<open>dueDate\<close>.
\<close>

theorem upcoming_sorted:
  assumes "getUpcoming tza now db u days = Inr rs"
  shows "sorted (map dueDate rs)"
  using assms by (simp add: getUpcoming_Inr)

theorem upcoming_sorted_witness:
  "sorted (map dueDate
       [\<lparr>reminderId = ''r2'', userId = ''u1'', title = ''Swim'', dueDate = 1000,
         repeatType = ''none'', repeatUntil = None, interval = 1, completed = False\<rparr>,
        \<lparr>reminderId = ''r1'', userId = ''u1'', title = ''Run'', dueDate = 2000,
         repeatType = ''none'', repeatUntil = None, interval = 1, completed = False\<rparr>])"
proof -
  have "getUpcoming (fixed_zone 0) 0
       [\<lparr>reminderId = ''r1'', userId = ''u1'', title = ''Run'', dueDate = 2000,
         repeatType = ''none'', repeatUntil = None, interval = 1, completed = False\<rparr>,
        \<lparr>reminderId = ''r2'', userId = ''u1'', title = ''Swim'', dueDate = 1000,
         repeatType = ''none'', repeatUntil = None, interval = 1, completed = False\<rparr>] ''u1'' 7
     = Inr [\<lparr>reminderId = ''r2'', userId = ''u1'', title = ''Swim'', dueDate = 1000,
         repeatType = ''none'', repeatUntil = None, interval = 1, completed = False\<rparr>,
        \<lparr>reminderId = ''r1'', userId = ''u1'', title = ''Run'', dueDate = 2000,
         repeatType = ''none'', repeatUntil = None, interval = 1, completed = False\<rparr>]"
    by (simp add: getUpcoming_Inr)
  then show ?thesis by (rule upcoming_sorted)
qed

text \<open>
  The claim as stated fails: of two reminders due at the same moment the one with the
  greater id is returned first.
\<close>

theorem upcoming_ties_counterexample:
  "getUpcoming (fixed_zone 0) 0
       [\<lparr>reminderId = ''b'', userId = ''u1'', title = ''Run'', dueDate = 1000,
         repeatType = ''none'', repeatUntil = None, interval = 1, completed = False\<rparr>,
        \<lparr>reminderId = ''a'', userId = ''u1'', title = ''Swim'', dueDate = 1000,
         repeatType = ''none'', repeatUntil = None, interval = 1, completed = False\<rparr>] ''u1'' 7
     = Inr [\<lparr>reminderId = ''b'', userId = ''u1'', title = ''Run'', dueDate = 1000,
              repeatType = ''none'', repeatUntil = None, interval = 1, completed = False\<rparr>,
            \<lparr>reminderId = ''a'', userId = ''u1'', title = ''Swim'', dueDate = 1000,
              repeatType = ''none'', repeatUntil = None, interval = 1, completed = False\<rparr>]
   \<and> (''a'' :: string) < ''b''"
  by (simp add: getUpcoming_Inr)

text \<open>
  C10 (as the code has it). The horizon is what \<^verbatim>\<open>parseInt\<close> reads off the front of the
  \<^verbatim>\<open>days\<close> parameter: a parameter that is missing, one in which \<^verbatim>\<open>parseInt\<close> finds no
  number (\<^verbatim>\<open>NaN\<close>) and one it reads as zero give the horizon of 7 days; any other
  parameter gives the number \<^verbatim>\<open>parseInt\<close> reads, whether or not the whole of it is a
  number.
\<close>

theorem days_default:
  "((q = None \<or> (\<exists>s. q = Some s \<and> (parseInt s = None \<or> parseInt s = Some 0))) \<longrightarrow>
      query_days q = 7
      \<and> router_get_upcoming tza now db u q =
          (case getUpcoming tza now db u 7 of
             Inr reminders \<Rightarrow>
               \<lparr>status = 200, success = Some True, data = Some reminders, error = None,
                message = None\<rparr>
           | Inl e \<Rightarrow>
               \<lparr>status = 500, success = Some False, data = None,
                error = Some ''Failed to fetch upcoming reminders'', message = None\<rparr>))
   \<and> (\<forall>s n. q = Some s \<and> parseInt s = Some n \<and> n \<noteq> 0 \<longrightarrow>
        query_days q = n
        \<and> router_get_upcoming tza now db u q =
          (case getUpcoming tza now db u n of
             Inr reminders \<Rightarrow>
               \<lparr>status = 200, success = Some True, data = Some reminders, error = None,
                message = None\<rparr>
           | Inl e \<Rightarrow>
               \<lparr>status = 500, success = Some False, data = None,
                error = Some ''Failed to fetch upcoming reminders'', message = None\<rparr>))"
proof -
  have u: "parseInt ''undefined'' = None" by code_simp
  show ?thesis
    by (auto simp: query_days_def router_get_upcoming_def u)
qed

theorem days_default_witness:
  "query_days (Some ''seven'') = 7 \<and> query_days (Some ''0'') = 7 \<and> query_days None = 7
   \<and> query_days (Some ''14'') = 14 \<and> query_days (Some ''3,4'') = 3"
proof -
  have 1: "parseInt ''seven'' = None" and 2: "parseInt ''0'' = Some 0"
    and 3: "parseInt ''14'' = Some 14" and 4: "parseInt ''3,4'' = Some 3"
    by code_simp+
  from days_default [of "Some ''seven''"] 1 have a: "query_days (Some ''seven'') = 7" by simp
  from days_default [of "Some ''0''"] 2 have b: "query_days (Some ''0'') = 7" by simp
  from days_default [of None] have c: "query_days None = 7" by simp
  from days_default [of "Some ''14''"] 3 have d: "query_days (Some ''14'') = 14" by simp
  from days_default [of "Some ''3,4''"] 4 have e: "query_days (Some ''3,4'') = 3" by simp
  from a b c d e show ?thesis by simp
qed

text \<open>
  The claim as stated fails: the parameter \<^verbatim>\<open>14 days\<close> is not a number, and the horizon
  is 14 days, not 7: a reminder due in ten days is returned, which the horizon of 7 days
  does not return.
\<close>

theorem days_nonnumeric_counterexample:
  "query_days (Some ''14 days'') = 14
   \<and> router_get_upcoming (fixed_zone 0) 0
       [\<lparr>reminderId = ''r1'', userId = ''u1'', title = ''Run'', dueDate = 864000000,
         repeatType = ''none'', repeatUntil = None, interval = 1, completed = False\<rparr>] ''u1''
       (Some ''14 days'')
     = \<lparr>status = 200, success = Some True,
        data = Some [\<lparr>reminderId = ''r1'', userId = ''u1'', title = ''Run'', dueDate = 864000000,
                 repeatType = ''none'', repeatUntil = None, interval = 1, completed = False\<rparr>],
        error = None, message = None\<rparr>
   \<and> router_get_upcoming (fixed_zone 0) 0
       [\<lparr>reminderId = ''r1'', userId = ''u1'', title = ''Run'', dueDate = 864000000,
         repeatType = ''none'', repeatUntil = None, interval = 1, completed = False\<rparr>] ''u1'' None
     = \<lparr>status = 200, success = Some True, data = Some [], error = None, message = None\<rparr>"
proof -
  have q: "query_days (Some ''14 days'') = 14" and n: "query_days None = 7" by code_simp+
  have 1: "getUpcoming (fixed_zone 0) 0
       [\<lparr>reminderId = ''r1'', userId = ''u1'', title = ''Run'', dueDate = 864000000,
         repeatType = ''none'', repeatUntil = None, interval = 1, completed = False\<rparr>] ''u1'' 14
     = Inr [\<lparr>reminderId = ''r1'', userId = ''u1'', title = ''Run'', dueDate = 864000000,
                 repeatType = ''none'', repeatUntil = None, interval = 1, completed = False\<rparr>]"
    by (simp add: getUpcoming_Inr)
  have 2: "getUpcoming (fixed_zone 0) 0
       [\<lparr>reminderId = ''r1'', userId = ''u1'', title = ''Run'', dueDate = 864000000,
         repeatType = ''none'', repeatUntil = None, interval = 1, completed = False\<rparr>] ''u1'' 7
     = Inr []"
    by (simp add: getUpcoming_Inr)
  from q n 1 2 show ?thesis by (simp add: router_get_upcoming_def)
qed

section \<open>Requests for an id that does not exist\<close>

text \<open>
  C5 (as the code has it). The client throws when no row has the id, and every handler
  answers what it catches with 500: for an id that is not in the table, \<^verbatim>\<open>DELETE /:id\<close>,
  \<^verbatim>\<open>PATCH /:id/complete\<close> and \<^verbatim>\<open>PUT /:id\<close> each answer 500 with their error message and
  leave the table as it was. No handler answers 404.
\<close>

theorem missing_id_500:
  assumes "i \<notin> reminderId ` set db"
  shows "router_delete db i =
           (db, \<lparr>status = 500, success = None, data = None,
                 error = Some ''Failed to delete reminder'', message = None\<rparr>)
       \<and> router_patch_complete db i =
           (db, \<lparr>status = 500, success = None, data = None,
                 error = Some ''Failed to complete reminder'', message = None\<rparr>)
       \<and> router_put newDate db i body =
           (db, \<lparr>status = 500, success = None, data = None,
                 error = Some ''Failed to update reminder'', message = None\<rparr>)"
proof -
  from assms have f: "find (has_id i) db = None" by (simp add: find_has_id_None)
  show ?thesis
    by (simp add: f router_delete_def reminderService_delete_def prisma_delete_def
        router_patch_complete_def markCompleted_def prisma_update_def
        router_put_def reminderService_update_def Let_def)
qed

theorem missing_id_500_witness:
  "router_patch_complete
       [\<lparr>reminderId = ''r1'', userId = ''u1'', title = ''Run'', dueDate = 1000,
         repeatType = ''none'', repeatUntil = None, interval = 1, completed = False\<rparr>] ''r7''
     = ([\<lparr>reminderId = ''r1'', userId = ''u1'', title = ''Run'', dueDate = 1000,
          repeatType = ''none'', repeatUntil = None, interval = 1, completed = False\<rparr>],
        \<lparr>status = 500, success = None, data = None,
         error = Some ''Failed to complete reminder'', message = None\<rparr>)"
proof -
  have "''r7'' \<notin> reminderId `
          set [\<lparr>reminderId = ''r1'', userId = ''u1'', title = ''Run'', dueDate = 1000,
                repeatType = ''none'', repeatUntil = None, interval = 1, completed = False\<rparr>]"
    by simp
  from missing_id_500 [OF this] show ?thesis by simp
qed

text \<open>
  The claim as stated fails: the second of two deletes of the same reminder answers 500,
  not success, and completing a reminder that does not exist answers 500, not 404.
\<close>

theorem delete_missing_counterexample:
  "router_delete
       (fst (router_delete
          [\<lparr>reminderId = ''r1'', userId = ''u1'', title = ''Run'', dueDate = 1000,
            repeatType = ''none'', repeatUntil = None, interval = 1, completed = False\<rparr>] ''r1'')) ''r1''
     = ([], \<lparr>status = 500, success = None, data = None,
              error = Some ''Failed to delete reminder'', message = None\<rparr>)
   \<and> snd (router_patch_complete [] ''r1'')
     = \<lparr>status = 500, success = None, data = None,
        error = Some ''Failed to complete reminder'', message = None\<rparr>"
  by (simp add: router_delete_def reminderService_delete_def prisma_delete_def has_id_def
      router_patch_complete_def markCompleted_def prisma_update_def)

section \<open>Updating a reminder\<close>

text \<open>
  C9. After \<^verbatim>\<open>PUT /:id\<close> on a reminder that exists, each of \<^verbatim>\<open>title\<close>, \<^verbatim>\<open>dueDate\<close>,
  \<^verbatim>\<open>repeatType\<close>, \<^verbatim>\<open>repeatUntil\<close> and \<^verbatim>\<open>interval\<close> that the body does not have is in the stored
  row what it was before, whether the update succeeds or is refused.
\<close>

theorem put_absent_fields_unchanged:
  assumes "find (has_id i) db = Some r"
  shows "\<exists>r'. find (has_id i) (fst (router_put newDate db i body)) = Some r'
           \<and> (data_title body = None \<longrightarrow> title r' = title r)
           \<and> (data_dueDate body = None \<longrightarrow> dueDate r' = dueDate r)
           \<and> (data_repeatType body = None \<longrightarrow> repeatType r' = repeatType r)
           \<and> (data_repeatUntil body = None \<longrightarrow> repeatUntil r' = repeatUntil r)
           \<and> (data_interval body = None \<longrightarrow> interval r' = interval r)"
proof (cases "reminderService_update newDate db i (body\<lparr>data_userId := None\<rparr>)")
  case (Inl e)
  then show ?thesis using assms by (simp add: router_put_def)
next
  case (Inr p)
  then show ?thesis using assms
    by (auto simp: router_put_def reminderService_update_def Let_def prisma_update_def
        find_has_id_map set_opt_def Date_if_truthy_def split: if_splits)
qed

theorem put_absent_fields_unchanged_witness:
  "\<exists>r'. find (has_id ''r1'')
           (fst (router_put newDate_strict
              [\<lparr>reminderId = ''r1'', userId = ''u1'', title = ''Run'', dueDate = 1000,
                repeatType = ''weekly'', repeatUntil = Some 5000, interval = 2, completed = False\<rparr>]
              ''r1''
              \<lparr>data_userId = None, data_title = None, data_dueDate = Some ''2024-01-15'',
               data_repeatType = None, data_repeatUntil = None, data_interval = None\<rparr>)) = Some r'
         \<and> title r' = ''Run'' \<and> repeatType r' = ''weekly'' \<and> repeatUntil r' = Some 5000
         \<and> interval r' = 2"
proof -
  have "find (has_id ''r1'')
          [\<lparr>reminderId = ''r1'', userId = ''u1'', title = ''Run'', dueDate = 1000,
            repeatType = ''weekly'', repeatUntil = Some 5000, interval = 2, completed = False\<rparr>]
        = Some \<lparr>reminderId = ''r1'', userId = ''u1'', title = ''Run'', dueDate = 1000,
            repeatType = ''weekly'', repeatUntil = Some 5000, interval = 2, completed = False\<rparr>"
    by (simp add: has_id_def)
  from put_absent_fields_unchanged [OF this, of newDate_strict
      "\<lparr>data_userId = None, data_title = None, data_dueDate = Some ''2024-01-15'',
        data_repeatType = None, data_repeatUntil = None, data_interval = None\<rparr>"]
  show ?thesis by simp
qed

section \<open>The validators of the calendar service\<close>

lemma in_rems_Cls: "t \<in> set (rems (Cls cs) s) \<longleftrightarrow> (\<exists>c. s = c # t \<and> c \<in> set cs)"
  by (cases s) auto

lemma in_rems_Seq: "t \<in> set (rems (Seq a b) s) \<longleftrightarrow> (\<exists>m. m \<in> set (rems a s) \<and> t \<in> set (rems b m))"
  by auto

lemma in_rems_Alt: "t \<in> set (rems (Alt a b) s) \<longleftrightarrow> t \<in> set (rems a s) \<or> t \<in> set (rems b s)"
  by auto

lemma in_rems_Opt: "t \<in> set (rems (Opt a) s) \<longleftrightarrow> t \<in> set (rems a s) \<or> t = s"
  by auto






lemma in_rems_char: "t \<in> set (rems (Cls [x]) s) \<longleftrightarrow> s = x # t"
  by (auto simp only: in_rems_Cls list.set singleton_iff empty_iff insert_iff)

lemma test_hour_minute:
  "test (Seq (Alt (Seq (Opt (Cls A)) (Cls B)) (Seq (Cls [y]) (Cls D))) (Seq (Cls [x]) (Seq (Cls F) (Cls G)))) s
   \<longleftrightarrow> (\<exists>h m1 m2. s = [h, x, m1, m2] \<and> h \<in> set B \<and> m1 \<in> set F \<and> m2 \<in> set G)
     \<or> (\<exists>h1 h2 m1 m2. s = [h1, h2, x, m1, m2]
          \<and> (h1 \<in> set A \<and> h2 \<in> set B \<or> h1 = y \<and> h2 \<in> set D)
          \<and> m1 \<in> set F \<and> m2 \<in> set G)"
  unfolding test_def in_rems_Seq in_rems_Alt in_rems_Opt in_rems_char
  unfolding in_rems_Cls
  by auto

text \<open>The strings the two expressions match.\<close>

lemma test_timeRegex:
  "test timeRegex s \<longleftrightarrow>
     (\<exists>h m1 m2. s = [h, CHR '':'', m1, m2] \<and> h \<in> set ''0123456789''
        \<and> m1 \<in> set ''012345'' \<and> m2 \<in> set ''0123456789'')
   \<or> (\<exists>h1 h2 m1 m2. s = [h1, h2, CHR '':'', m1, m2]
        \<and> (h1 \<in> set ''01'' \<and> h2 \<in> set ''0123456789'' \<or> h1 = CHR ''2'' \<and> h2 \<in> set ''0123'')
        \<and> m1 \<in> set ''012345'' \<and> m2 \<in> set ''0123456789'')"
  unfolding timeRegex_def by (rule test_hour_minute)




text \<open>
  C7 (as the code has it). \<^verbatim>\<open>_validateTime\<close> returns the string exactly when it is an hour,
  a colon and a minute, where the hour is one digit, or two digits of which the first is
  0 or 1, or 2 followed by one of 0 to 3, and the minute is one of 0 to 5 followed by a
  digit. Any other string that is not empty is refused with the format error; the empty
  string gives \<^verbatim>\<open>null\<close>.
\<close>

theorem validateTime_accepts:
  "validateTime (Some time) =
     (if time = [] then Inr None
      else if (\<exists>h m1 m2. time = [h, CHR '':'', m1, m2] \<and> h \<in> set ''0123456789''
                 \<and> m1 \<in> set ''012345'' \<and> m2 \<in> set ''0123456789'')
              \<or> (\<exists>h1 h2 m1 m2. time = [h1, h2, CHR '':'', m1, m2]
                   \<and> (h1 \<in> set ''01'' \<and> h2 \<in> set ''0123456789''
                        \<or> h1 = CHR ''2'' \<and> h2 \<in> set ''0123'')
                   \<and> m1 \<in> set ''012345'' \<and> m2 \<in> set ''0123456789'')
        then Inr (Some time)
      else Inl (Error ''Invalid time format. Use HH:mm (24-hour format)''))"
proof -
  have "validateTime (Some time) =
     (if time = [] then Inr None
      else if test timeRegex time then Inr (Some time)
      else Inl (Error ''Invalid time format. Use HH:mm (24-hour format)''))"
    by simp
  then show ?thesis unfolding test_timeRegex .
qed

theorem validateTime_accepts_witness:
  "validateTime (Some ''23:59'') = Inr (Some ''23:59'')
   \<and> validateTime (Some ''24:00'') = Inl (Error ''Invalid time format. Use HH:mm (24-hour format)'')
   \<and> validateTime (Some ''12:60'') = Inl (Error ''Invalid time format. Use HH:mm (24-hour format)'')"
proof -
  from validateTime_accepts [of "''23:59''"] have 1: "validateTime (Some ''23:59'') = Inr (Some ''23:59'')"
    by simp
  from validateTime_accepts [of "''24:00''"]
  have 2: "validateTime (Some ''24:00'') = Inl (Error ''Invalid time format. Use HH:mm (24-hour format)'')"
    by simp
  from validateTime_accepts [of "''12:60''"]
  have 3: "validateTime (Some ''12:60'') = Inl (Error ''Invalid time format. Use HH:mm (24-hour format)'')"
    by simp
  from 1 2 3 show ?thesis by simp
qed

text \<open>The claim as stated fails: an hour of a single digit is accepted.\<close>

theorem validateTime_single_digit_counterexample:
  "validateTime (Some ''9:30'') = Inr (Some ''9:30'')"
  by (simp add: test_timeRegex)

section \<open>Date and time strings at the boundary\<close>















end
